theory Spec2Isabelle
  imports Main
begin

section \<open>Data model\<close>

text \<open>
  The route handlers of the tutoring backend (\<^verbatim>\<open>routes/tutor/tutor.js\<close>,
  \<^verbatim>\<open>routes/tutorBooking/tutorBooking.js\<close>, \<^verbatim>\<open>routes/studyGroup/studyGroup.js\<close>)
  are embedded as functions from a request and a store to a response and a store.

  Modelled from the spec: the Mongoose schemas (\<^verbatim>\<open>models/...\<close>) are not among the
  sources, so the documents carry the fields the handlers read and write, with the types
  of the spec's data model: \<^verbatim>\<open>startTime\<close>, \<^verbatim>\<open>endTime\<close> and \<^verbatim>\<open>bookingTime\<close> are
  timestamps and \<^verbatim>\<open>day\<close> is a date. An instant is the integer \<^verbatim>\<open>new Date(x).getTime()\<close>
  (milliseconds since the epoch); a date string of a request body is identified with the
  instant it denotes. Object identifiers are natural numbers.
\<close>

type_synonym oid = nat
type_synonym instant = int

text \<open>\<^verbatim>\<open>req.user\<close>, attached by the authentication middleware: \<^verbatim>\<open>{id, role}\<close>.\<close>

record principal =
  uid :: oid
  role :: string

record user =
  user_id :: oid
  tutoringAvailability :: "oid list"
  joinedStudyGroups :: "oid list"

record availability =
  av_id :: oid
  av_tutor :: oid
  av_day :: instant
  av_subject :: string
  av_startTime :: instant
  av_endTime :: instant
  av_isActive :: bool

record booking =
  bk_id :: oid
  bk_student :: oid
  bk_tutor :: oid
  bk_subject :: string
  bk_bookingTime :: instant
  bk_status :: string

record studyGroup =
  sg_id :: oid
  sg_title :: "string option"
  sg_subject :: "string option"
  sg_description :: "string option"
  sg_date :: "string option"
  sg_time :: "string option"
  sg_duration :: "string option"
  sg_creator :: oid
  sg_participants :: "oid list"

text \<open>
  The document store. The collections are lists in insertion order; \<open>nextId\<close> stands for
  the driver's generator of fresh \<^verbatim>\<open>_id\<close> values.
\<close>

record store =
  users :: "user list"
  availabilities :: "availability list"
  bookings :: "booking list"
  studyGroups :: "studyGroup list"
  nextId :: oid

subsection \<open>Request bodies\<close>

text \<open>
  A field of a JSON body that is absent (\<^verbatim>\<open>undefined\<close>) is \<open>None\<close>. The handlers test
  most fields for truthiness (\<^verbatim>\<open>if (status)\<close>, \<^verbatim>\<open>subject || date || time\<close>): a string
  is truthy when it is present and not empty.
\<close>

definition truthy :: "string option \<Rightarrow> bool" where
  "truthy v = (case v of None \<Rightarrow> False | Some s \<Rightarrow> s \<noteq> [])"

text \<open>One element of \<^verbatim>\<open>req.body.availability\<close> in \<^verbatim>\<open>POST /availability\<close>.\<close>

record slot_req =
  s_day :: instant
  s_subject :: string
  s_startTime :: instant
  s_endTime :: instant

text \<open>\<^verbatim>\<open>{subject, startTime, endTime, disableDay, isActive}\<close> of \<^verbatim>\<open>PATCH /availability/:id\<close>.\<close>

record availability_patch =
  ap_subject :: "string option"
  ap_startTime :: "instant option"
  ap_endTime :: "instant option"
  ap_disableDay :: bool
  ap_isActive :: "bool option"

text \<open>\<^verbatim>\<open>{tutor, subject, bookingTime}\<close> of \<^verbatim>\<open>POST /bookings\<close>.\<close>

record booking_req =
  br_tutor :: oid
  br_subject :: string
  br_bookingTime :: instant

text \<open>\<^verbatim>\<open>{status, bookingTime}\<close> of \<^verbatim>\<open>PATCH /bookings/:id\<close>.\<close>

record booking_patch =
  bp_status :: "string option"
  bp_bookingTime :: "instant option"

text \<open>
  \<^verbatim>\<open>{title, subject, description, date, time, duration}\<close> of \<^verbatim>\<open>POST /studyGroups\<close>;
  \<^verbatim>\<open>PATCH /studyGroups/:id\<close> reads all but the title.
\<close>

record group_req =
  gr_title :: "string option"
  gr_subject :: "string option"
  gr_description :: "string option"
  gr_date :: "string option"
  gr_time :: "string option"
  gr_duration :: "string option"

subsection \<open>Responses\<close>

text \<open>
  The \<^verbatim>\<open>message\<close> of a JSON response, one constructor for each message text of the
  handlers:
  \<^item> \<open>OnlyTutorsAdd\<close>: "Only tutors can add availability";
  \<^item> \<open>PastStartTime\<close>: "Start time cannot be in the past";
  \<^item> \<open>OutOfOrderSlot subject t\<close>: "The start time for (subject) must be after (t).";
  \<^item> \<open>AvailabilityAdded\<close>: "Availability added successfully";
  \<^item> \<open>OnlyTutorsUpdate\<close>: "Only tutors can update availability";
  \<^item> \<open>AvailabilityNotFound\<close>: "Availability not found";
  \<^item> \<open>SlotAlreadyBooked\<close>: "Cannot update this availability as it is already booked";
  \<^item> \<open>DayDisabled\<close>: "All availability slots for this day have been disabled";
  \<^item> \<open>DayBooked\<close>: "You have bookings for this day, you cannot disable it";
  \<^item> \<open>OnlyTutorsDelete\<close>: "Only tutors can delete availability";
  \<^item> \<open>SlotHasBookings\<close>: "Cannot delete availability, there are bookings for this slot";
  \<^item> \<open>AvailabilityDeleted\<close>: "Availability deleted successfully";
  \<^item> \<open>OnlyStudentsBook\<close>: "Only students can book tutors";
  \<^item> \<open>BookingNotFound\<close>: "Booking not found";
  \<^item> \<open>InvalidStatus\<close>: "Invalid status update";
  \<^item> \<open>TutorsCannotCancel\<close>: "Tutors cannot cancel student bookings";
  \<^item> \<open>StudentsOnlyCancel\<close>: "Students can only cancel bookings";
  \<^item> \<open>OnlyStudentsCreate\<close>: "Only students can create study groups";
  \<^item> \<open>GroupNotFound\<close>: "Study group not found";
  \<^item> \<open>OnlyStudentsJoin\<close>: "Only students can join study groups";
  \<^item> \<open>AlreadyCreator\<close>: "You are the creator, not a participant";
  \<^item> \<open>AlreadyJoined\<close>: "You are already a participant";
  \<^item> \<open>JoinedGroup\<close>: "Joined study group successfully";
  \<^item> \<open>OnlyStudentsLeave\<close>: "Only students can leave study groups";
  \<^item> \<open>CreatorCannotLeave\<close>: "Creator cannot leave their own study group";
  \<^item> \<open>NotAParticipant\<close>: "You are not a participant";
  \<^item> \<open>LeftGroup\<close>: "Left study group successfully";
  \<^item> \<open>OnlyCreatorUpdates\<close>: "Only the creator can update the study group";
  \<^item> \<open>GroupLocked\<close>: "Cannot change subject, date, or time once participants have
    joined. You can only modify the duration and description.";
  \<^item> \<open>GroupUpdated\<close>: "Study group updated successfully";
  \<^item> \<open>OnlyCreatorDeletes\<close>: "Only the creator can delete the study group";
  \<^item> \<open>GroupHasParticipants\<close>: "Cannot delete the study group as there are other
    participants.";
  \<^item> \<open>GroupDeleted\<close>: "Study group deleted successfully".
\<close>

datatype message =
    OnlyTutorsAdd
  | PastStartTime
  | OutOfOrderSlot string instant
  | AvailabilityAdded
  | OnlyTutorsUpdate
  | AvailabilityNotFound
  | SlotAlreadyBooked
  | DayDisabled
  | DayBooked
  | OnlyTutorsDelete
  | SlotHasBookings
  | AvailabilityDeleted
  | OnlyStudentsBook
  | BookingNotFound
  | InvalidStatus
  | TutorsCannotCancel
  | StudentsOnlyCancel
  | OnlyStudentsCreate
  | GroupNotFound
  | OnlyStudentsJoin
  | AlreadyCreator
  | AlreadyJoined
  | JoinedGroup
  | OnlyStudentsLeave
  | CreatorCannotLeave
  | NotAParticipant
  | LeftGroup
  | OnlyCreatorUpdates
  | GroupLocked
  | GroupUpdated
  | OnlyCreatorDeletes
  | GroupHasParticipants
  | GroupDeleted

text \<open>The JSON of a response: a message, a message with data, or a document.\<close>

datatype payload =
    Msg message
  | MsgSlots message "oid list"
  | MsgGroup message "studyGroup option"
  | AvailabilityJson availability
  | BookingJson booking
  | GroupJson studyGroup

text \<open>\<^verbatim>\<open>res.status(code).json(payload)\<close>.\<close>

datatype response = Response (code: nat) (json: payload)

section \<open>The document store's operations\<close>

definition findAvailability :: "availability list \<Rightarrow> oid \<Rightarrow> availability option" where
  "findAvailability as i = find (\<lambda>a. av_id a = i) as"

definition saveAvailability :: "availability \<Rightarrow> availability list \<Rightarrow> availability list" where
  "saveAvailability a as = map (\<lambda>x. if av_id x = av_id a then a else x) as"

definition removeAvailability :: "oid \<Rightarrow> availability list \<Rightarrow> availability list" where
  "removeAvailability i as = filter (\<lambda>x. av_id x \<noteq> i) as"

definition findBooking :: "booking list \<Rightarrow> oid \<Rightarrow> booking option" where
  "findBooking bs i = find (\<lambda>b. bk_id b = i) bs"

definition saveBooking :: "booking \<Rightarrow> booking list \<Rightarrow> booking list" where
  "saveBooking b bs = map (\<lambda>x. if bk_id x = bk_id b then b else x) bs"

definition findGroup :: "studyGroup list \<Rightarrow> oid \<Rightarrow> studyGroup option" where
  "findGroup gs i = find (\<lambda>g. sg_id g = i) gs"

definition saveGroup :: "studyGroup \<Rightarrow> studyGroup list \<Rightarrow> studyGroup list" where
  "saveGroup g gs = map (\<lambda>x. if sg_id x = sg_id g then g else x) gs"

definition removeGroup :: "oid \<Rightarrow> studyGroup list \<Rightarrow> studyGroup list" where
  "removeGroup i gs = filter (\<lambda>x. sg_id x \<noteq> i) gs"

text \<open>\<^verbatim>\<open>User.findByIdAndUpdate(id, update)\<close>: no user with that id, nothing changes.\<close>

definition updateUser :: "oid \<Rightarrow> (user \<Rightarrow> user) \<Rightarrow> user list \<Rightarrow> user list" where
  "updateUser i f us = map (\<lambda>u. if user_id u = i then f u else u) us"

text \<open>\<^verbatim>\<open>$push: {joinedStudyGroups: g}\<close> and \<^verbatim>\<open>$pull: {joinedStudyGroups: g}\<close>.\<close>

definition pushGroup :: "oid \<Rightarrow> user \<Rightarrow> user" where
  "pushGroup g u = u\<lparr>joinedStudyGroups := joinedStudyGroups u @ [g]\<rparr>"

definition pullGroup :: "oid \<Rightarrow> user \<Rightarrow> user" where
  "pullGroup g u = u\<lparr>joinedStudyGroups := filter (\<lambda>x. x \<noteq> g) (joinedStudyGroups u)\<rparr>"

text \<open>\<^verbatim>\<open>$push: {tutoringAvailability: {$each: createdSlots}}\<close>.\<close>

definition pushSlots :: "oid list \<Rightarrow> user \<Rightarrow> user" where
  "pushSlots created u = u\<lparr>tutoringAvailability := tutoringAvailability u @ created\<rparr>"

text \<open>
  \<^verbatim>\<open>TutorBooking.find({tutor: t, bookingTime: {$gte: lo, $lt: hi}})\<close>: the bookings of
  tutor \<open>t\<close> whose time lies in the half-open window from \<open>lo\<close> to \<open>hi\<close>.
\<close>

definition bookingsIn :: "oid \<Rightarrow> instant \<Rightarrow> instant \<Rightarrow> booking list \<Rightarrow> booking list" where
  "bookingsIn t lo hi bs =
     filter (\<lambda>b. bk_tutor b = t \<and> lo \<le> bk_bookingTime b \<and> bk_bookingTime b < hi) bs"

text \<open>
  \<^verbatim>\<open>new Date(d).setHours(23, 59, 59, 999)\<close>: the last millisecond of the local calendar
  day of \<open>d\<close>. \<open>tz\<close> is the server's offset from UTC in milliseconds (local time is
  UTC plus \<open>tz\<close>); the server's time zone is a parameter of the handler.
\<close>

definition msPerDay :: int where
  "msPerDay = 86400000"

definition setHours_23_59_59_999 :: "int \<Rightarrow> instant \<Rightarrow> instant" where
  "setHours_23_59_59_999 tz d = ((d + tz) div msPerDay) * msPerDay + 86399999 - tz"

section \<open>Tutor routes\<close>

subsection \<open>\<^verbatim>\<open>POST /api/tutors/availability\<close>\<close>

text \<open>
  \<^verbatim>\<open>Availability.find({tutor: tutorId, day: day}).sort({startTime: 1})\<close>. The sort is
  the stable insertion sort of the library: slots with the same start time keep the
  order of the collection.
\<close>

definition existingAvailability :: "oid \<Rightarrow> instant \<Rightarrow> availability list \<Rightarrow> availability list" where
  "existingAvailability tutorId day as =
     sort_key av_startTime (filter (\<lambda>a. av_tutor a = tutorId \<and> av_day a = day) as)"

text \<open>
  \<^verbatim>\<open>earliestAvailableStartTime\<close>: the proposed start itself, or the end of the last
  existing slot of the day when there is one.
\<close>

definition earliestAvailableStartTime :: "availability list \<Rightarrow> instant \<Rightarrow> instant" where
  "earliestAvailableStartTime existing startTime =
     (if length existing > 0 then av_endTime (last existing) else startTime)"

text \<open>
  The loop \<^verbatim>\<open>for (let slot of availability)\<close>. \<open>now\<close> is the clock (\<^verbatim>\<open>new Date()\<close>),
  \<open>created\<close> the accumulator \<^verbatim>\<open>createdSlots\<close>. A rejected slot ends the request at once
  (\<open>Inl\<close>); the slots saved by earlier iterations stay in the store.
\<close>

fun addSlots ::
  "instant \<Rightarrow> oid \<Rightarrow> slot_req list \<Rightarrow> oid list \<Rightarrow> store \<Rightarrow> (response + oid list) \<times> store" where
  "addSlots now tutorId [] created st = (Inr created, st)"
| "addSlots now tutorId (slot # rest) created st =
     (if s_startTime slot < now then (Inl (Response 400 (Msg PastStartTime)), st)
      else
        let existing = existingAvailability tutorId (s_day slot) (availabilities st);
            earliest = earliestAvailableStartTime existing (s_startTime slot)
        in if s_startTime slot < earliest
           then (Inl (Response 400 (Msg (OutOfOrderSlot (s_subject slot) earliest))), st)
           else
             let newAvailability =
                   \<lparr>av_id = nextId st, av_tutor = tutorId, av_day = s_day slot,
                    av_subject = s_subject slot, av_startTime = s_startTime slot,
                    av_endTime = s_endTime slot, av_isActive = True\<rparr>
             in addSlots now tutorId rest (created @ [av_id newAvailability])
                  (st\<lparr>availabilities := availabilities st @ [newAvailability],
                      nextId := Suc (nextId st)\<rparr>))"

definition postAvailability ::
  "instant \<Rightarrow> principal \<Rightarrow> slot_req list \<Rightarrow> store \<Rightarrow> response \<times> store" where
  "postAvailability now requester availability st =
     (if role requester \<noteq> ''tutor'' then (Response 403 (Msg OnlyTutorsAdd), st)
      else
        case addSlots now (uid requester) availability [] st of
          (Inl rejected, st') \<Rightarrow> (rejected, st')
        | (Inr createdSlots, st') \<Rightarrow>
            (Response 201 (MsgSlots AvailabilityAdded createdSlots),
             st'\<lparr>users := updateUser (uid requester) (pushSlots createdSlots) (users st')\<rparr>))"

subsection \<open>\<^verbatim>\<open>PATCH /api/tutors/availability/:id\<close>\<close>

text \<open>
  \<^verbatim>\<open>Availability.updateMany({tutor: t, day: d}, {$set: {isActive: false}})\<close>.
\<close>

definition disableDay :: "oid \<Rightarrow> instant \<Rightarrow> availability list \<Rightarrow> availability list" where
  "disableDay t d as =
     map (\<lambda>a. if av_tutor a = t \<and> av_day a = d then a\<lparr>av_isActive := False\<rparr> else a) as"

text \<open>The assignments \<^verbatim>\<open>if (subject) availability.subject = subject; ...\<close>.\<close>

definition applyAvailabilityPatch :: "availability_patch \<Rightarrow> availability \<Rightarrow> availability" where
  "applyAvailabilityPatch body a =
     (let a1 = (if truthy (ap_subject body) then a\<lparr>av_subject := the (ap_subject body)\<rparr> else a);
          a2 = (case ap_startTime body of Some t \<Rightarrow> a1\<lparr>av_startTime := t\<rparr> | None \<Rightarrow> a1);
          a3 = (case ap_endTime body of Some t \<Rightarrow> a2\<lparr>av_endTime := t\<rparr> | None \<Rightarrow> a2)
      in case ap_isActive body of Some v \<Rightarrow> a3\<lparr>av_isActive := v\<rparr> | None \<Rightarrow> a3)"

definition patchAvailability ::
  "int \<Rightarrow> principal \<Rightarrow> oid \<Rightarrow> availability_patch \<Rightarrow> store \<Rightarrow> response \<times> store" where
  "patchAvailability tz requester availabilityId body st =
     (if role requester \<noteq> ''tutor'' then (Response 403 (Msg OnlyTutorsUpdate), st)
      else
        case findAvailability (availabilities st) availabilityId of
          None \<Rightarrow> (Response 404 (Msg AvailabilityNotFound), st)
        | Some a \<Rightarrow>
            if length (bookingsIn (uid requester) (av_startTime a) (av_endTime a) (bookings st)) > 0
            then (Response 400 (Msg SlotAlreadyBooked), st)
            else if ap_disableDay body then
              (if length (bookingsIn (uid requester) (av_day a)
                            (setHours_23_59_59_999 tz (av_day a)) (bookings st)) = 0
               then (Response 200 (Msg DayDisabled),
                     st\<lparr>availabilities := disableDay (uid requester) (av_day a) (availabilities st)\<rparr>)
               else (Response 400 (Msg DayBooked), st))
            else
              let a' = applyAvailabilityPatch body a
              in (Response 200 (AvailabilityJson a'),
                  st\<lparr>availabilities := saveAvailability a' (availabilities st)\<rparr>))"

subsection \<open>\<^verbatim>\<open>DELETE /api/tutors/availability/:id\<close>\<close>

definition deleteAvailability :: "principal \<Rightarrow> oid \<Rightarrow> store \<Rightarrow> response \<times> store" where
  "deleteAvailability requester availabilityId st =
     (if role requester \<noteq> ''tutor'' then (Response 403 (Msg OnlyTutorsDelete), st)
      else
        case findAvailability (availabilities st) availabilityId of
          None \<Rightarrow> (Response 404 (Msg AvailabilityNotFound), st)
        | Some a \<Rightarrow>
            if length (bookingsIn (uid requester) (av_startTime a) (av_endTime a) (bookings st)) > 0
            then (Response 400 (Msg SlotHasBookings), st)
            else (Response 200 (Msg AvailabilityDeleted),
                  st\<lparr>availabilities := removeAvailability (av_id a) (availabilities st)\<rparr>))"

section \<open>Booking routes\<close>

subsection \<open>\<^verbatim>\<open>POST /api/bookings\<close>\<close>

definition postBooking :: "principal \<Rightarrow> booking_req \<Rightarrow> store \<Rightarrow> response \<times> store" where
  "postBooking requester body st =
     (if role requester \<noteq> ''student'' then (Response 403 (Msg OnlyStudentsBook), st)
      else
        let b = \<lparr>bk_id = nextId st, bk_student = uid requester, bk_tutor = br_tutor body,
                 bk_subject = br_subject body, bk_bookingTime = br_bookingTime body,
                 bk_status = ''pending''\<rparr>
        in (Response 201 (BookingJson b),
            st\<lparr>bookings := bookings st @ [b], nextId := Suc (nextId st)\<rparr>))"

subsection \<open>\<^verbatim>\<open>PATCH /api/bookings/:id\<close>\<close>

text \<open>
  The block \<^verbatim>\<open>if (status) { ... }\<close>: the booking with its new status, or the response
  that ends the request. A requester whose role is neither \<^verbatim>\<open>tutor\<close> nor \<^verbatim>\<open>student\<close>
  falls through both branches.
\<close>

definition statusUpdate :: "string \<Rightarrow> string option \<Rightarrow> booking \<Rightarrow> response + booking" where
  "statusUpdate r status b =
     (if truthy status then
        (let s = the status in
         if s \<notin> set [''confirmed'', ''completed'', ''cancelled'']
         then Inl (Response 400 (Msg InvalidStatus))
         else if r = ''tutor'' then
           (if s = ''confirmed'' \<or> s = ''completed'' then Inr (b\<lparr>bk_status := s\<rparr>)
            else Inl (Response 403 (Msg TutorsCannotCancel)))
         else if r = ''student'' then
           (if s = ''cancelled'' then Inr (b\<lparr>bk_status := s\<rparr>)
            else Inl (Response 403 (Msg StudentsOnlyCancel)))
         else Inr b)
      else Inr b)"

definition patchBooking :: "principal \<Rightarrow> oid \<Rightarrow> booking_patch \<Rightarrow> store \<Rightarrow> response \<times> store" where
  "patchBooking requester bookingId body st =
     (case findBooking (bookings st) bookingId of
        None \<Rightarrow> (Response 404 (Msg BookingNotFound), st)
      | Some b \<Rightarrow>
          (case statusUpdate (role requester) (bp_status body) b of
             Inl rejected \<Rightarrow> (rejected, st)
           | Inr b1 \<Rightarrow>
               let b2 = (case bp_bookingTime body of
                           Some t \<Rightarrow> b1\<lparr>bk_bookingTime := t\<rparr>
                         | None \<Rightarrow> b1)
               in (Response 200 (BookingJson b2), st\<lparr>bookings := saveBooking b2 (bookings st)\<rparr>)))"

section \<open>Study group routes\<close>

subsection \<open>\<^verbatim>\<open>POST /api/studyGroups\<close>\<close>

definition postStudyGroup :: "principal \<Rightarrow> group_req \<Rightarrow> store \<Rightarrow> response \<times> store" where
  "postStudyGroup requester body st =
     (if role requester \<noteq> ''student'' then (Response 403 (Msg OnlyStudentsCreate), st)
      else
        let g = \<lparr>sg_id = nextId st, sg_title = gr_title body, sg_subject = gr_subject body,
                 sg_description = gr_description body, sg_date = gr_date body,
                 sg_time = gr_time body, sg_duration = gr_duration body,
                 sg_creator = uid requester, sg_participants = [uid requester]\<rparr>
        in (Response 201 (GroupJson g),
            st\<lparr>studyGroups := studyGroups st @ [g],
               users := updateUser (uid requester) (pushGroup (sg_id g)) (users st),
               nextId := Suc (nextId st)\<rparr>))"

subsection \<open>\<^verbatim>\<open>POST /api/studyGroups/:id/join\<close>\<close>

definition joinStudyGroup :: "principal \<Rightarrow> oid \<Rightarrow> store \<Rightarrow> response \<times> store" where
  "joinStudyGroup requester groupId st =
     (case findGroup (studyGroups st) groupId of
        None \<Rightarrow> (Response 404 (Msg GroupNotFound), st)
      | Some g \<Rightarrow>
          if role requester \<noteq> ''student'' then (Response 403 (Msg OnlyStudentsJoin), st)
          else if sg_creator g = uid requester then (Response 400 (Msg AlreadyCreator), st)
          else if uid requester \<in> set (sg_participants g)
          then (Response 400 (Msg AlreadyJoined), st)
          else
            let g' = g\<lparr>sg_participants := sg_participants g @ [uid requester]\<rparr>;
                st' = st\<lparr>studyGroups := saveGroup g' (studyGroups st),
                         users := updateUser (uid requester) (pushGroup (sg_id g')) (users st)\<rparr>
            in (Response 200 (MsgGroup JoinedGroup (findGroup (studyGroups st') (sg_id g'))), st'))"

subsection \<open>\<^verbatim>\<open>POST /api/studyGroups/:id/leave\<close>\<close>

definition leaveStudyGroup :: "principal \<Rightarrow> oid \<Rightarrow> store \<Rightarrow> response \<times> store" where
  "leaveStudyGroup requester groupId st =
     (case findGroup (studyGroups st) groupId of
        None \<Rightarrow> (Response 404 (Msg GroupNotFound), st)
      | Some g \<Rightarrow>
          if role requester \<noteq> ''student'' then (Response 403 (Msg OnlyStudentsLeave), st)
          else if sg_creator g = uid requester then (Response 400 (Msg CreatorCannotLeave), st)
          else if uid requester \<notin> set (sg_participants g)
          then (Response 400 (Msg NotAParticipant), st)
          else
            let g' = g\<lparr>sg_participants :=
                         filter (\<lambda>participant. participant \<noteq> uid requester) (sg_participants g)\<rparr>;
                st' = st\<lparr>studyGroups := saveGroup g' (studyGroups st),
                         users := updateUser (uid requester) (pullGroup (sg_id g')) (users st)\<rparr>
            in (Response 200 (MsgGroup LeftGroup (findGroup (studyGroups st') (sg_id g'))), st'))"

subsection \<open>\<^verbatim>\<open>PATCH /api/studyGroups/:id\<close>\<close>

text \<open>
  The assignments \<^verbatim>\<open>if (subject) studyGroup.subject = subject; ...\<close>: the description
  is written whenever it is not \<^verbatim>\<open>undefined\<close>, the other fields when they are truthy.
\<close>

definition applyGroupPatch :: "group_req \<Rightarrow> studyGroup \<Rightarrow> studyGroup" where
  "applyGroupPatch body g =
     (let g1 = (if truthy (gr_subject body) then g\<lparr>sg_subject := gr_subject body\<rparr> else g);
          g2 = (if gr_description body \<noteq> None
                then g1\<lparr>sg_description := gr_description body\<rparr> else g1);
          g3 = (if truthy (gr_date body) then g2\<lparr>sg_date := gr_date body\<rparr> else g2);
          g4 = (if truthy (gr_time body) then g3\<lparr>sg_time := gr_time body\<rparr> else g3)
      in if truthy (gr_duration body) then g4\<lparr>sg_duration := gr_duration body\<rparr> else g4)"

definition patchStudyGroup :: "principal \<Rightarrow> oid \<Rightarrow> group_req \<Rightarrow> store \<Rightarrow> response \<times> store" where
  "patchStudyGroup requester groupId body st =
     (case findGroup (studyGroups st) groupId of
        None \<Rightarrow> (Response 404 (Msg GroupNotFound), st)
      | Some g \<Rightarrow>
          if sg_creator g \<noteq> uid requester then (Response 403 (Msg OnlyCreatorUpdates), st)
          else if length (sg_participants g) > 1 \<and>
                  (truthy (gr_subject body) \<or> truthy (gr_date body) \<or> truthy (gr_time body))
          then (Response 400 (Msg GroupLocked), st)
          else
            let g' = applyGroupPatch body g;
                st' = st\<lparr>studyGroups := saveGroup g' (studyGroups st)\<rparr>
            in (Response 200 (MsgGroup GroupUpdated (findGroup (studyGroups st') (sg_id g'))), st'))"

subsection \<open>\<^verbatim>\<open>DELETE /api/studyGroups/:id\<close>\<close>

definition deleteStudyGroup :: "principal \<Rightarrow> oid \<Rightarrow> store \<Rightarrow> response \<times> store" where
  "deleteStudyGroup requester groupId st =
     (case findGroup (studyGroups st) groupId of
        None \<Rightarrow> (Response 404 (Msg GroupNotFound), st)
      | Some g \<Rightarrow>
          if sg_creator g \<noteq> uid requester then (Response 403 (Msg OnlyCreatorDeletes), st)
          else
            let otherParticipants =
                  filter (\<lambda>participant. participant \<noteq> uid requester) (sg_participants g)
            in if length otherParticipants > 0
               then (Response 400 (Msg GroupHasParticipants), st)
               else (Response 200 (Msg GroupDeleted),
                     st\<lparr>users := updateUser (sg_creator g) (pullGroup (sg_id g)) (users st),
                        studyGroups := removeGroup groupId (studyGroups st)\<rparr>))"

section \<open>A small store for concrete runs\<close>

text \<open>
  Tutor 1 owns slot 10 on day 0 (1970-01-01), from 09:00 to 10:00 UTC; student 2 has
  booking 20 with tutor 1 at 09:30, already cancelled; student 2 created study group 30,
  which student 4 has joined. Tutor 3 and student 5 own nothing.
\<close>

definition demo_tutor :: principal where
  "demo_tutor = \<lparr>uid = 1, role = ''tutor''\<rparr>"

definition other_tutor :: principal where
  "other_tutor = \<lparr>uid = 3, role = ''tutor''\<rparr>"

definition demo_student :: principal where
  "demo_student = \<lparr>uid = 2, role = ''student''\<rparr>"

definition new_student :: principal where
  "new_student = \<lparr>uid = 5, role = ''student''\<rparr>"

definition demo_slot :: availability where
  "demo_slot = \<lparr>av_id = 10, av_tutor = 1, av_day = 0, av_subject = ''Math'',
                 av_startTime = 32400000, av_endTime = 36000000, av_isActive = True\<rparr>"

definition demo_booking :: booking where
  "demo_booking = \<lparr>bk_id = 20, bk_student = 2, bk_tutor = 1, bk_subject = ''Math'',
                    bk_bookingTime = 34200000, bk_status = ''cancelled''\<rparr>"

definition demo_group :: studyGroup where
  "demo_group = \<lparr>sg_id = 30, sg_title = Some ''Algebra'', sg_subject = Some ''Math'',
                  sg_description = Some ''Linear maps'', sg_date = Some ''1970-01-02'',
                  sg_time = Some ''18:00'', sg_duration = Some ''60'',
                  sg_creator = 2, sg_participants = [2, 4]\<rparr>"

definition demo_store :: store where
  "demo_store =
     \<lparr>users = [\<lparr>user_id = 1, tutoringAvailability = [10], joinedStudyGroups = []\<rparr>,
               \<lparr>user_id = 2, tutoringAvailability = [], joinedStudyGroups = [30]\<rparr>,
               \<lparr>user_id = 3, tutoringAvailability = [], joinedStudyGroups = []\<rparr>,
               \<lparr>user_id = 4, tutoringAvailability = [], joinedStudyGroups = [30]\<rparr>,
               \<lparr>user_id = 5, tutoringAvailability = [], joinedStudyGroups = []\<rparr>],
      availabilities = [demo_slot],
      bookings = [demo_booking],
      studyGroups = [demo_group],
      nextId = 31\<rparr>"

text \<open>The same store with no booking at all.\<close>

definition quiet_store :: store where
  "quiet_store = demo_store\<lparr>bookings := []\<rparr>"

text \<open>The same store with the booking moved to 23:59:59.999 of day 0, pending.\<close>

definition late_booking :: booking where
  "late_booking = demo_booking\<lparr>bk_bookingTime := 86399999, bk_status := ''pending''\<rparr>"

definition late_store :: store where
  "late_store = demo_store\<lparr>bookings := [late_booking]\<rparr>"

section \<open>Facts about the store\<close>

lemmas demo_defs =
  demo_tutor_def other_tutor_def demo_student_def new_student_def demo_slot_def
  demo_booking_def demo_group_def demo_store_def quiet_store_def late_booking_def
  late_store_def

lemma find_Some_holds: "find P xs = Some x \<Longrightarrow> P x"
  by (induction xs) (auto split: if_splits)

text \<open>Saving a document under the identifier it was found with: the next lookup returns it.\<close>

lemma find_replace:
  "find (\<lambda>x. key x = i) xs = Some y \<Longrightarrow> key y' = i \<Longrightarrow>
   find (\<lambda>x. key x = i) (map (\<lambda>x. if key x = i then y' else x) xs) = Some y'"
  by (induction xs) (auto split: if_splits)



lemma findBooking_id: "findBooking bs i = Some b \<Longrightarrow> bk_id b = i"
  unfolding findBooking_def by (rule find_Some_holds)

lemma findBooking_saveBooking:
  "findBooking bs i = Some b \<Longrightarrow> bk_id b' = i \<Longrightarrow> findBooking (saveBooking b' bs) i = Some b'"
  unfolding findBooking_def saveBooking_def by (simp add: find_replace)

lemma findGroup_id: "findGroup gs i = Some g \<Longrightarrow> sg_id g = i"
  unfolding findGroup_def by (rule find_Some_holds)

lemma findGroup_saveGroup:
  "findGroup gs i = Some g \<Longrightarrow> sg_id g' = i \<Longrightarrow> findGroup (saveGroup g' gs) i = Some g'"
  unfolding findGroup_def saveGroup_def by (simp add: find_replace)



lemma findBooking_demo: "findBooking (bookings demo_store) 20 = Some demo_booking"
  by (simp add: findBooking_def demo_defs)

lemma findGroup_demo: "findGroup (studyGroups demo_store) 30 = Some demo_group"
  by (simp add: findGroup_def demo_defs)




text \<open>Neither availability handler for one slot writes to the users.\<close>

lemma deleteAvailability_users: "users (snd (deleteAvailability requester i st)) = users st"
  by (simp add: deleteAvailability_def split: option.splits)

lemma patchAvailability_users: "users (snd (patchAvailability tz requester i body st)) = users st"
  by (simp add: patchAvailability_def Let_def split: option.splits)

text \<open>
  A request with two slots whose second slot is out of order: the first slot is stored,
  the response is 400 and \<^verbatim>\<open>tutoringAvailability\<close> is not written.
\<close>

lemma postAvailability_partial_write:
  "postAvailability 0 demo_tutor
     [\<lparr>s_day = 0, s_subject = ''Math'', s_startTime = 36000000, s_endTime = 39600000\<rparr>,
      \<lparr>s_day = 0, s_subject = ''Math'', s_startTime = 37800000, s_endTime = 41400000\<rparr>]
     demo_store
   = (Response 400 (Msg (OutOfOrderSlot ''Math'' 39600000)),
      demo_store\<lparr>availabilities := [demo_slot,
          \<lparr>av_id = 31, av_tutor = 1, av_day = 0, av_subject = ''Math'',
            av_startTime = 36000000, av_endTime = 39600000, av_isActive = True\<rparr>],
        nextId := 32\<rparr>)"
  by (simp add: postAvailability_def existingAvailability_def earliestAvailableStartTime_def
      Let_def demo_defs)

text \<open>A booking update that the status block lets through is saved and answered with 200.\<close>

lemma patchBooking_permitted:
  assumes "findBooking (bookings st) i = Some b"
    and "statusUpdate (role requester) (bp_status body) b = Inr b1"
  shows "patchBooking requester i body st =
     (Response 200 (BookingJson (case bp_bookingTime body of
                                   Some t \<Rightarrow> b1\<lparr>bk_bookingTime := t\<rparr> | None \<Rightarrow> b1)),
      st\<lparr>bookings := saveBooking (case bp_bookingTime body of
                                     Some t \<Rightarrow> b1\<lparr>bk_bookingTime := t\<rparr> | None \<Rightarrow> b1)
                         (bookings st)\<rparr>)"
  using assms by (simp add: patchBooking_def Let_def)

lemma patchBooking_rejected:
  assumes "findBooking (bookings st) i = Some b"
    and "statusUpdate (role requester) (bp_status body) b = Inl rejected"
  shows "patchBooking requester i body st = (rejected, st)"
  using assms by (simp add: patchBooking_def)

lemma patchBooking_sets_status:
  assumes "findBooking (bookings st) i = Some b"
    and "statusUpdate (role requester) (bp_status body) b = Inr (b\<lparr>bk_status := s\<rparr>)"
  shows "code (fst (patchBooking requester i body st)) = 200 \<and>
         map_option bk_status (findBooking (bookings (snd (patchBooking requester i body st))) i)
           = Some s"
proof -
  let ?b2 = "case bp_bookingTime body of Some t \<Rightarrow> b\<lparr>bk_status := s, bk_bookingTime := t\<rparr>
             | None \<Rightarrow> b\<lparr>bk_status := s\<rparr>"
  have id2: "bk_id ?b2 = i"
    using findBooking_id [OF assms(1)] by (simp split: option.splits)
  have st2: "bk_status ?b2 = s"
    by (simp split: option.splits)
  show ?thesis
    using patchBooking_permitted [OF assms] findBooking_saveBooking [OF assms(1) id2] st2
    by simp
qed

text \<open>The study group handlers on their successful paths.\<close>

lemma joinStudyGroup_joins:
  assumes "findGroup (studyGroups st) i = Some g" and "role requester = ''student''"
    and "sg_creator g \<noteq> uid requester" and "uid requester \<notin> set (sg_participants g)"
  shows "joinStudyGroup requester i st =
     (Response 200 (MsgGroup JoinedGroup
        (Some (g\<lparr>sg_participants := sg_participants g @ [uid requester]\<rparr>))),
      st\<lparr>studyGroups :=
            saveGroup (g\<lparr>sg_participants := sg_participants g @ [uid requester]\<rparr>) (studyGroups st),
         users := updateUser (uid requester) (pushGroup i) (users st)\<rparr>)"
proof -
  have id: "sg_id (g\<lparr>sg_participants := sg_participants g @ [uid requester]\<rparr>) = i"
    using findGroup_id [OF assms(1)] by simp
  show ?thesis
    using assms id findGroup_saveGroup [OF assms(1) id]
    by (simp add: joinStudyGroup_def Let_def)
qed

lemma leaveStudyGroup_leaves:
  assumes "findGroup (studyGroups st) i = Some g" and "role requester = ''student''"
    and "sg_creator g \<noteq> uid requester" and "uid requester \<in> set (sg_participants g)"
  shows "leaveStudyGroup requester i st =
     (Response 200 (MsgGroup LeftGroup
        (Some (g\<lparr>sg_participants := filter (\<lambda>p. p \<noteq> uid requester) (sg_participants g)\<rparr>))),
      st\<lparr>studyGroups :=
            saveGroup (g\<lparr>sg_participants := filter (\<lambda>p. p \<noteq> uid requester) (sg_participants g)\<rparr>)
              (studyGroups st),
         users := updateUser (uid requester) (pullGroup i) (users st)\<rparr>)"
proof -
  have id: "sg_id (g\<lparr>sg_participants := filter (\<lambda>p. p \<noteq> uid requester) (sg_participants g)\<rparr>) = i"
    using findGroup_id [OF assms(1)] by simp
  show ?thesis
    using assms id findGroup_saveGroup [OF assms(1) id]
    by (simp add: leaveStudyGroup_def Let_def)
qed

text \<open>Deleting a study group pulls its identifier from the creator's list.\<close>

lemma deleteStudyGroup_pulls:
  assumes "findGroup (studyGroups st) i = Some g" and "sg_creator g = uid requester"
    and "filter (\<lambda>p. p \<noteq> uid requester) (sg_participants g) = []"
  shows "deleteStudyGroup requester i st =
     (Response 200 (Msg GroupDeleted),
      st\<lparr>users := updateUser (uid requester) (pullGroup i) (users st),
         studyGroups := removeGroup i (studyGroups st)\<rparr>)"
  using assms findGroup_id [OF assms(1)] by (simp add: deleteStudyGroup_def Let_def)

section \<open>Adding availability\<close>




section \<open>Booking status\<close>

text \<open>
  Claim C2, as amended. The handler never reads the current status of the booking, so
  \<open>completed\<close> and \<open>cancelled\<close> are not terminal: for every existing booking, whatever
  its current status, a request by a tutor with target \<open>confirmed\<close> or \<open>completed\<close>, or
  by a student with target \<open>cancelled\<close>, is answered with 200 and the stored status of
  the booking is the target.
\<close>

theorem booking_status_set_from_any_state:
  assumes "findBooking (bookings st) i = Some b"
    and "bp_status body = Some s"
    and "role requester = ''tutor'' \<and> (s = ''confirmed'' \<or> s = ''completed'') \<or>
         role requester = ''student'' \<and> s = ''cancelled''"
  shows "code (fst (patchBooking requester i body st)) = 200 \<and>
         map_option bk_status (findBooking (bookings (snd (patchBooking requester i body st))) i)
           = Some s"
proof -
  have "statusUpdate (role requester) (bp_status body) b = Inr (b\<lparr>bk_status := s\<rparr>)"
    using assms(2,3) by (auto simp: statusUpdate_def truthy_def)
  then show ?thesis
    by (rule patchBooking_sets_status [OF assms(1)])
qed

text \<open>Booking 20 is cancelled; tutor 1 marks it completed.\<close>

theorem booking_status_set_from_any_state_witness:
  "findBooking (bookings demo_store) 20 = Some demo_booking \<and>
   bk_status demo_booking = ''cancelled'' \<and>
   role demo_tutor = ''tutor'' \<and>
   map_option bk_status (findBooking (bookings (snd (patchBooking demo_tutor 20
      \<lparr>bp_status = Some ''completed'', bp_bookingTime = None\<rparr> demo_store))) 20)
     = Some ''completed''"
proof -
  have h2: "bp_status \<lparr>bp_status = Some ''completed'', bp_bookingTime = None\<rparr>
            = Some ''completed''"
    by simp
  have h3: "role demo_tutor = ''tutor'' \<and>
            (''completed'' = ''confirmed'' \<or> ''completed'' = ''completed'') \<or>
            role demo_tutor = ''student'' \<and> ''completed'' = ''cancelled''"
    by (simp add: demo_tutor_def)
  show ?thesis
    using booking_status_set_from_any_state [OF findBooking_demo h2 h3] findBooking_demo
    by (simp add: demo_booking_def demo_tutor_def)
qed

text \<open>
  The claim as stated fails: booking 20 is cancelled, tutor 1 asks for \<open>confirmed\<close>, and
  the stored booking is confirmed.
\<close>

theorem cancelled_booking_confirmed:
  "bk_status demo_booking = ''cancelled'' \<and>
   findBooking (bookings demo_store) 20 = Some demo_booking \<and>
   patchBooking demo_tutor 20 \<lparr>bp_status = Some ''confirmed'', bp_bookingTime = None\<rparr> demo_store
     = (Response 200 (BookingJson (demo_booking\<lparr>bk_status := ''confirmed''\<rparr>)),
        demo_store\<lparr>bookings := [demo_booking\<lparr>bk_status := ''confirmed''\<rparr>]\<rparr>)"
  by (simp add: patchBooking_def statusUpdate_def truthy_def findBooking_def saveBooking_def
      Let_def demo_defs)

text \<open>
  Claim C3, as amended. For every \<^verbatim>\<open>PATCH\<close> of an existing booking whose status field
  is truthy (present and not the empty string): a status that is not one of \<open>confirmed\<close>,
  \<open>completed\<close>, \<open>cancelled\<close> fails with 400 (\<open>InvalidStatus\<close>); otherwise a tutor succeeds
  exactly when the target is \<open>confirmed\<close> or \<open>completed\<close> (the status is then stored) and
  fails with 403 when it is \<open>cancelled\<close>, and a student succeeds exactly when the target
  is \<open>cancelled\<close> and fails with 403 when it is \<open>confirmed\<close> or \<open>completed\<close>. A rejected
  request leaves the store as it was.
\<close>

theorem booking_status_authority:
  assumes "findBooking (bookings st) i = Some b"
    and "bp_status body = Some s" and "s \<noteq> []"
  shows
   "(s \<notin> set [''confirmed'', ''completed'', ''cancelled''] \<longrightarrow>
       patchBooking requester i body st = (Response 400 (Msg InvalidStatus), st)) \<and>
    (s \<in> set [''confirmed'', ''completed'', ''cancelled''] \<longrightarrow> role requester = ''tutor'' \<longrightarrow>
       (code (fst (patchBooking requester i body st)) = 200)
         = (s = ''confirmed'' \<or> s = ''completed'') \<and>
       (s = ''confirmed'' \<or> s = ''completed'' \<longrightarrow>
          map_option bk_status
            (findBooking (bookings (snd (patchBooking requester i body st))) i) = Some s) \<and>
       (s = ''cancelled'' \<longrightarrow>
          patchBooking requester i body st = (Response 403 (Msg TutorsCannotCancel), st))) \<and>
    (s \<in> set [''confirmed'', ''completed'', ''cancelled''] \<longrightarrow> role requester = ''student'' \<longrightarrow>
       (code (fst (patchBooking requester i body st)) = 200) = (s = ''cancelled'') \<and>
       (s = ''cancelled'' \<longrightarrow>
          map_option bk_status
            (findBooking (bookings (snd (patchBooking requester i body st))) i) = Some s) \<and>
       (s = ''confirmed'' \<or> s = ''completed'' \<longrightarrow>
          patchBooking requester i body st = (Response 403 (Msg StudentsOnlyCancel), st)))"
proof -
  note rej = patchBooking_rejected [OF assms(1)]
  note set_to = patchBooking_sets_status [OF assms(1)]
  have su: "statusUpdate (role requester) (bp_status body) b =
     (if s \<notin> set [''confirmed'', ''completed'', ''cancelled'']
      then Inl (Response 400 (Msg InvalidStatus))
      else if role requester = ''tutor'' then
        (if s = ''confirmed'' \<or> s = ''completed'' then Inr (b\<lparr>bk_status := s\<rparr>)
         else Inl (Response 403 (Msg TutorsCannotCancel)))
      else if role requester = ''student'' then
        (if s = ''cancelled'' then Inr (b\<lparr>bk_status := s\<rparr>)
         else Inl (Response 403 (Msg StudentsOnlyCancel)))
      else Inr b)"
    using assms(2,3) by (simp add: statusUpdate_def truthy_def Let_def)
  show ?thesis
    using su rej [of requester body] set_to [of requester body s] by (auto split: if_splits)
qed

text \<open>
  On booking 20: a tutor asking for \<open>cancelled\<close> gets 403, a tutor asking for the
  unknown status \<open>done\<close> gets 400, a student asking for \<open>cancelled\<close> gets 200.
\<close>

theorem booking_status_authority_witness:
  "findBooking (bookings demo_store) 20 = Some demo_booking \<and>
   patchBooking demo_tutor 20 \<lparr>bp_status = Some ''cancelled'', bp_bookingTime = None\<rparr> demo_store
     = (Response 403 (Msg TutorsCannotCancel), demo_store) \<and>
   patchBooking demo_tutor 20 \<lparr>bp_status = Some ''done'', bp_bookingTime = None\<rparr> demo_store
     = (Response 400 (Msg InvalidStatus), demo_store) \<and>
   code (fst (patchBooking demo_student 20
                \<lparr>bp_status = Some ''cancelled'', bp_bookingTime = None\<rparr> demo_store)) = 200"
proof -
  have a: "bp_status \<lparr>bp_status = Some ''cancelled'', bp_bookingTime = None\<rparr>
           = Some ''cancelled''"
    and b: "bp_status \<lparr>bp_status = Some ''done'', bp_bookingTime = None\<rparr> = Some ''done''"
    and c: "''cancelled'' \<noteq> []" and d: "''done'' \<noteq> []"
    by simp_all
  show ?thesis
    using booking_status_authority [OF findBooking_demo a c, of demo_tutor]
      booking_status_authority [OF findBooking_demo b d, of demo_tutor]
      booking_status_authority [OF findBooking_demo a c, of demo_student]
      findBooking_demo
    by (simp add: demo_tutor_def demo_student_def)
qed

text \<open>
  The claim as stated fails: a body whose status field is the empty string supplies a
  status that is not one of the three, and the request is answered with 200, the booking
  unchanged.
\<close>

theorem empty_status_not_rejected:
  "findBooking (bookings demo_store) 20 = Some demo_booking \<and>
   bp_status \<lparr>bp_status = Some '''', bp_bookingTime = None\<rparr> = Some '''' \<and>
   '''' \<notin> set [''confirmed'', ''completed'', ''cancelled''] \<and>
   patchBooking demo_student 20 \<lparr>bp_status = Some '''', bp_bookingTime = None\<rparr> demo_store
     = (Response 200 (BookingJson demo_booking), demo_store)"
  by (simp add: patchBooking_def statusUpdate_def truthy_def findBooking_def saveBooking_def
      Let_def demo_defs)

section \<open>Editing and deleting availability\<close>





section \<open>Disabling a day\<close>

text \<open>
  Claim C5 asks that a day-disable request be rejected with 400 when a booking of the
  tutor falls in the closed window from 00:00:00.000 to 23:59:59.999 of the day. The
  handler builds the upper bound \<^verbatim>\<open>setHours(23, 59, 59, 999)\<close> and queries with
  \<^verbatim>\<open>$lt\<close>, so the last millisecond of the day is outside the window it checks. On a
  server in UTC, tutor 1 has a pending booking at 23:59:59.999 of day 0 and asks to
  disable the day through slot 10: the answer is 200 and the slot is deactivated.
\<close>

theorem day_disabled_despite_late_booking:
  "role demo_tutor = ''tutor'' \<and>
   findAvailability (availabilities late_store) 10 = Some demo_slot \<and>
   bookings late_store = [late_booking] \<and>
   bk_tutor late_booking = uid demo_tutor \<and>
   bk_bookingTime late_booking = av_day demo_slot + 86399999 \<and>
   setHours_23_59_59_999 0 (av_day demo_slot) = av_day demo_slot + 86399999 \<and>
   patchAvailability 0 demo_tutor 10
     \<lparr>ap_subject = None, ap_startTime = None, ap_endTime = None,
       ap_disableDay = True, ap_isActive = None\<rparr> late_store
   = (Response 200 (Msg DayDisabled),
      late_store\<lparr>availabilities := [demo_slot\<lparr>av_isActive := False\<rparr>]\<rparr>)"
  by (simp add: patchAvailability_def findAvailability_def bookingsIn_def disableDay_def
      setHours_23_59_59_999_def msPerDay_def demo_defs)

section \<open>The users' back-references\<close>

text \<open>
  Claim C6 asks that every create and delete of an availability slot, and every create,
  join, leave and delete of a study group, update the owning user's list in the same
  operation. The study group handlers do (\<open>joinStudyGroup_joins\<close>,
  \<open>leaveStudyGroup_leaves\<close>, \<open>deleteStudyGroup_pulls\<close>), and so does the creation of
  slots when every slot of the request is accepted; \<^verbatim>\<open>DELETE /availability/:id\<close> does
  not (\<open>deleteAvailability_users\<close>). Tutor 1 deletes slot 10 from the store without
  bookings: the slot is gone and its identifier is still in the tutor's
  \<^verbatim>\<open>tutoringAvailability\<close>.
\<close>

theorem deleted_slot_stays_in_user_list:
  "user_id (hd (users quiet_store)) = uid demo_tutor \<and>
   tutoringAvailability (hd (users quiet_store)) = [10] \<and>
   findAvailability (availabilities quiet_store) 10 = Some demo_slot \<and>
   fst (deleteAvailability demo_tutor 10 quiet_store) = Response 200 (Msg AvailabilityDeleted) \<and>
   findAvailability (availabilities (snd (deleteAvailability demo_tutor 10 quiet_store))) 10
     = None \<and>
   tutoringAvailability (hd (users (snd (deleteAvailability demo_tutor 10 quiet_store)))) = [10]"
  by (simp add: deleteAvailability_def findAvailability_def bookingsIn_def
      removeAvailability_def demo_defs)

section \<open>Study group membership\<close>

text \<open>
  Claim C7. Join followed by leave is a round trip: for every study group and every
  student who is neither its creator nor one of its participants, the join succeeds
  (200, the student appended to the participants), the leave that follows succeeds
  (200), and the group found afterwards is the original group; in particular its set of
  participants is the original one.
\<close>

theorem join_then_leave_restores_group:
  assumes "findGroup (studyGroups st) i = Some g" and "role requester = ''student''"
    and "sg_creator g \<noteq> uid requester" and "uid requester \<notin> set (sg_participants g)"
  shows
   "code (fst (joinStudyGroup requester i st)) = 200 \<and>
    map_option sg_participants (findGroup (studyGroups (snd (joinStudyGroup requester i st))) i)
      = Some (sg_participants g @ [uid requester]) \<and>
    code (fst (leaveStudyGroup requester i (snd (joinStudyGroup requester i st)))) = 200 \<and>
    findGroup (studyGroups (snd (leaveStudyGroup requester i
                                   (snd (joinStudyGroup requester i st))))) i = Some g \<and>
    map_option (set \<circ> sg_participants)
      (findGroup (studyGroups (snd (leaveStudyGroup requester i
                                      (snd (joinStudyGroup requester i st))))) i)
      = Some (set (sg_participants g))"
proof -
  let ?g1 = "g\<lparr>sg_participants := sg_participants g @ [uid requester]\<rparr>"
  let ?st1 = "st\<lparr>studyGroups := saveGroup ?g1 (studyGroups st),
                 users := updateUser (uid requester) (pushGroup i) (users st)\<rparr>"
  have id: "sg_id g = i"
    by (rule findGroup_id [OF assms(1)])
  have id1: "sg_id ?g1 = i"
    using id by simp
  have join: "joinStudyGroup requester i st =
      (Response 200 (MsgGroup JoinedGroup (Some ?g1)), ?st1)"
    by (rule joinStudyGroup_joins [OF assms])
  have f1: "findGroup (studyGroups ?st1) i = Some ?g1"
    using findGroup_saveGroup [OF assms(1) id1] by simp
  have c1: "sg_creator ?g1 \<noteq> uid requester"
    using assms(3) by simp
  have m1: "uid requester \<in> set (sg_participants ?g1)"
    by simp
  have restored:
    "?g1\<lparr>sg_participants := filter (\<lambda>p. p \<noteq> uid requester) (sg_participants ?g1)\<rparr> = g"
  proof -
    have "filter (\<lambda>p. p \<noteq> uid requester) (sg_participants g) = sg_participants g"
      using assms(4) by (auto simp: filter_id_conv)
    then show ?thesis by simp
  qed
  have leave: "leaveStudyGroup requester i ?st1 =
      (Response 200 (MsgGroup LeftGroup (Some g)),
       ?st1\<lparr>studyGroups := saveGroup g (studyGroups ?st1),
             users := updateUser (uid requester) (pullGroup i) (users ?st1)\<rparr>)"
    using leaveStudyGroup_leaves [OF f1 assms(2) c1 m1] unfolding restored .
  have f2: "findGroup (saveGroup g (studyGroups ?st1)) i = Some g"
    by (rule findGroup_saveGroup [OF f1 id])
  show ?thesis
    unfolding join snd_conv fst_conv leave using f1 f2 by simp
qed

text \<open>Student 5 joins group 30 and leaves it again.\<close>

theorem join_then_leave_restores_group_witness:
  "findGroup (studyGroups demo_store) 30 = Some demo_group \<and>
   role new_student = ''student'' \<and> sg_creator demo_group \<noteq> uid new_student \<and>
   uid new_student \<notin> set (sg_participants demo_group) \<and>
   map_option sg_participants
     (findGroup (studyGroups (snd (joinStudyGroup new_student 30 demo_store))) 30)
     = Some [2, 4, 5] \<and>
   map_option sg_participants
     (findGroup (studyGroups (snd (leaveStudyGroup new_student 30
                                     (snd (joinStudyGroup new_student 30 demo_store))))) 30)
     = Some [2, 4]"
proof -
  have r: "role new_student = ''student''"
    and c: "sg_creator demo_group \<noteq> uid new_student"
    and m: "uid new_student \<notin> set (sg_participants demo_group)"
    by (simp_all add: new_student_def demo_group_def)
  show ?thesis
    using r c m findGroup_demo join_then_leave_restores_group [OF findGroup_demo r c m]
    by (simp add: new_student_def demo_group_def)
qed

section \<open>Updating a study group\<close>

text \<open>
  Claim C8, as amended. For every update request by the creator of a study group: if the
  participants list is longer than 1 and the subject, the date or the time of the request
  is truthy (present and not the empty string), the request is rejected with 400
  (\<open>GroupLocked\<close>) and the store is unchanged; a request none of whose subject, date and
  time is truthy succeeds (200) whatever the number of participants, writing the
  description when it is present and the duration when it is truthy, and nothing else.
\<close>

theorem group_locked_on_truthy_fields:
  assumes "findGroup (studyGroups st) i = Some g" and "sg_creator g = uid requester"
  shows
   "(length (sg_participants g) > 1 \<and>
       (truthy (gr_subject body) \<or> truthy (gr_date body) \<or> truthy (gr_time body)) \<longrightarrow>
       patchStudyGroup requester i body st = (Response 400 (Msg GroupLocked), st)) \<and>
    (\<not> truthy (gr_subject body) \<and> \<not> truthy (gr_date body) \<and> \<not> truthy (gr_time body) \<longrightarrow>
       patchStudyGroup requester i body st =
         (Response 200 (MsgGroup GroupUpdated (Some (applyGroupPatch body g))),
          st\<lparr>studyGroups := saveGroup (applyGroupPatch body g) (studyGroups st)\<rparr>) \<and>
       applyGroupPatch body g =
         g\<lparr>sg_description := (if gr_description body \<noteq> None then gr_description body
                               else sg_description g),
           sg_duration := (if truthy (gr_duration body) then gr_duration body
                            else sg_duration g)\<rparr>)"
proof -
  have id: "sg_id (applyGroupPatch body g) = i"
    using findGroup_id [OF assms(1)] by (simp add: applyGroupPatch_def Let_def)
  have f: "findGroup (saveGroup (applyGroupPatch body g) (studyGroups st)) i
           = Some (applyGroupPatch body g)"
    by (rule findGroup_saveGroup [OF assms(1) id])
  have locked: "length (sg_participants g) > 1 \<and>
       (truthy (gr_subject body) \<or> truthy (gr_date body) \<or> truthy (gr_time body)) \<Longrightarrow>
       patchStudyGroup requester i body st = (Response 400 (Msg GroupLocked), st)"
    using assms by (simp add: patchStudyGroup_def)
  have run: "\<not> truthy (gr_subject body) \<and> \<not> truthy (gr_date body) \<and> \<not> truthy (gr_time body) \<Longrightarrow>
       patchStudyGroup requester i body st =
         (Response 200 (MsgGroup GroupUpdated (Some (applyGroupPatch body g))),
          st\<lparr>studyGroups := saveGroup (applyGroupPatch body g) (studyGroups st)\<rparr>)"
    using assms f id by (simp add: patchStudyGroup_def Let_def)
  have fields: "\<not> truthy (gr_subject body) \<and> \<not> truthy (gr_date body) \<and> \<not> truthy (gr_time body) \<Longrightarrow>
       applyGroupPatch body g =
         g\<lparr>sg_description := (if gr_description body \<noteq> None then gr_description body
                               else sg_description g),
           sg_duration := (if truthy (gr_duration body) then gr_duration body
                            else sg_duration g)\<rparr>"
    by (simp add: applyGroupPatch_def Let_def)
  show ?thesis
    using locked run fields by blast
qed

text \<open>
  The scenario of the spec: group 30 has two participants; its creator cannot change the
  subject and can change the duration.
\<close>

theorem group_locked_on_truthy_fields_witness:
  "findGroup (studyGroups demo_store) 30 = Some demo_group \<and>
   sg_creator demo_group = uid demo_student \<and> length (sg_participants demo_group) = 2 \<and>
   patchStudyGroup demo_student 30
     \<lparr>gr_title = None, gr_subject = Some ''Physics'', gr_description = None, gr_date = None,
       gr_time = None, gr_duration = None\<rparr> demo_store
     = (Response 400 (Msg GroupLocked), demo_store) \<and>
   fst (patchStudyGroup demo_student 30
     \<lparr>gr_title = None, gr_subject = None, gr_description = None, gr_date = None,
       gr_time = None, gr_duration = Some ''90''\<rparr> demo_store)
     = Response 200 (MsgGroup GroupUpdated (Some (demo_group\<lparr>sg_duration := Some ''90''\<rparr>)))"
proof -
  have c: "sg_creator demo_group = uid demo_student"
    by (simp add: demo_student_def demo_group_def)
  show ?thesis
    using c findGroup_demo
      group_locked_on_truthy_fields [OF findGroup_demo c, of
        "\<lparr>gr_title = None, gr_subject = Some ''Physics'', gr_description = None, gr_date = None,
          gr_time = None, gr_duration = None\<rparr>"]
      group_locked_on_truthy_fields [OF findGroup_demo c, of
        "\<lparr>gr_title = None, gr_subject = None, gr_description = None, gr_date = None,
          gr_time = None, gr_duration = Some ''90''\<rparr>"]
    by (simp add: truthy_def demo_group_def)
qed

text \<open>
  The claim as stated fails: group 30 has two participants and the creator's request
  supplies the empty string as subject; the request is answered with 200, the group
  unchanged, and not with 400.
\<close>

theorem empty_subject_not_locked:
  "findGroup (studyGroups demo_store) 30 = Some demo_group \<and>
   sg_creator demo_group = uid demo_student \<and> length (sg_participants demo_group) > 1 \<and>
   gr_subject \<lparr>gr_title = None, gr_subject = Some '''', gr_description = None, gr_date = None,
       gr_time = None, gr_duration = None\<rparr> = Some '''' \<and>
   patchStudyGroup demo_student 30
     \<lparr>gr_title = None, gr_subject = Some '''', gr_description = None, gr_date = None,
       gr_time = None, gr_duration = None\<rparr> demo_store
     = (Response 200 (MsgGroup GroupUpdated (Some demo_group)), demo_store)"
  by (simp add: patchStudyGroup_def applyGroupPatch_def truthy_def findGroup_def saveGroup_def
      Let_def demo_defs)

section \<open>Who may update a booking\<close>

text \<open>
  Claim C10. \<^verbatim>\<open>PATCH /bookings/:id\<close> never checks that the requester is a party to the
  booking. For every existing booking and every requester, whatever the requester's
  identifier: a student sets the status to \<open>cancelled\<close>; a tutor sets it to \<open>confirmed\<close>
  or \<open>completed\<close>; a requester of any role who sends a booking time and no status
  overwrites the stored time with the value sent, whatever it is; and the outcome of a
  request is the same for every identifier of the requester.
\<close>

theorem booking_patch_ignores_requester_id:
  assumes "findBooking (bookings st) i = Some b"
  shows
   "(role requester = ''student'' \<longrightarrow> bp_status body = Some ''cancelled'' \<longrightarrow>
       code (fst (patchBooking requester i body st)) = 200 \<and>
       map_option bk_status (findBooking (bookings (snd (patchBooking requester i body st))) i)
         = Some ''cancelled'') \<and>
    (role requester = ''tutor'' \<longrightarrow>
       bp_status body = Some ''confirmed'' \<or> bp_status body = Some ''completed'' \<longrightarrow>
       code (fst (patchBooking requester i body st)) = 200 \<and>
       map_option bk_status (findBooking (bookings (snd (patchBooking requester i body st))) i)
         = bp_status body) \<and>
    (bp_status body = None \<longrightarrow> bp_bookingTime body = Some t \<longrightarrow>
       code (fst (patchBooking requester i body st)) = 200 \<and>
       map_option bk_bookingTime
         (findBooking (bookings (snd (patchBooking requester i body st))) i) = Some t) \<and>
    patchBooking (requester\<lparr>uid := anyone\<rparr>) i body st = patchBooking requester i body st"
proof -
  have id: "bk_id b = i"
    by (rule findBooking_id [OF assms])
  note set_to = patchBooking_sets_status [OF assms, of requester body]
  have c1: "role requester = ''student'' \<Longrightarrow> bp_status body = Some ''cancelled'' \<Longrightarrow>
       code (fst (patchBooking requester i body st)) = 200 \<and>
       map_option bk_status (findBooking (bookings (snd (patchBooking requester i body st))) i)
         = Some ''cancelled''"
    by (rule set_to) (simp add: statusUpdate_def truthy_def)
  have c2: "role requester = ''tutor'' \<Longrightarrow>
       bp_status body = Some ''confirmed'' \<or> bp_status body = Some ''completed'' \<Longrightarrow>
       code (fst (patchBooking requester i body st)) = 200 \<and>
       map_option bk_status (findBooking (bookings (snd (patchBooking requester i body st))) i)
         = bp_status body"
    using set_to [of "''confirmed''"] set_to [of "''completed''"]
    by (auto simp: statusUpdate_def truthy_def)
  have c3: "bp_status body = None \<Longrightarrow> bp_bookingTime body = Some t \<Longrightarrow>
       code (fst (patchBooking requester i body st)) = 200 \<and>
       map_option bk_bookingTime
         (findBooking (bookings (snd (patchBooking requester i body st))) i) = Some t"
  proof -
    assume n: "bp_status body = None" and t: "bp_bookingTime body = Some t"
    have su: "statusUpdate (role requester) (bp_status body) b = Inr b"
      using n by (simp add: statusUpdate_def truthy_def)
    have id2: "bk_id (b\<lparr>bk_bookingTime := t\<rparr>) = i"
      using id by simp
    show ?thesis
      using patchBooking_permitted [OF assms su] t findBooking_saveBooking [OF assms id2]
      by simp
  qed
  have c4: "patchBooking (requester\<lparr>uid := anyone\<rparr>) i body st = patchBooking requester i body st"
    using assms by (simp add: patchBooking_def)
  show ?thesis
    using c1 c2 c3 c4 by blast
qed

text \<open>
  Booking 20 is between student 2 and tutor 1. Student 5 moves it to the instant -1
  (before 1970), and tutor 3 confirms it.
\<close>

theorem booking_patch_ignores_requester_id_witness:
  "findBooking (bookings demo_store) 20 = Some demo_booking \<and>
   uid new_student \<noteq> bk_student demo_booking \<and> uid other_tutor \<noteq> bk_tutor demo_booking \<and>
   bp_status \<lparr>bp_status = None, bp_bookingTime = Some (-1)\<rparr> = None \<and>
   map_option bk_bookingTime (findBooking (bookings (snd (patchBooking new_student 20
      \<lparr>bp_status = None, bp_bookingTime = Some (-1)\<rparr> demo_store))) 20) = Some (-1) \<and>
   map_option bk_status (findBooking (bookings (snd (patchBooking other_tutor 20
      \<lparr>bp_status = Some ''confirmed'', bp_bookingTime = None\<rparr> demo_store))) 20)
     = Some ''confirmed''"
  using booking_patch_ignores_requester_id [OF findBooking_demo, of new_student
          "\<lparr>bp_status = None, bp_bookingTime = Some (-1)\<rparr>" "-1" 0]
    booking_patch_ignores_requester_id [OF findBooking_demo, of other_tutor
          "\<lparr>bp_status = Some ''confirmed'', bp_bookingTime = None\<rparr>" 0 0]
    findBooking_demo
  by (simp add: new_student_def other_tutor_def demo_booking_def)

end
